theory Spec2Isabelle
  imports Complex_Main "HOL-Library.Signed_Division"
begin

section \<open>Values of the program\<close>

subsection \<open>float64\<close>

text \<open>
  Metric values and thresholds are Go \<open>float64\<close>. Only comparisons are made on them
  (\<open>>\<close>, \<open><\<close> and \<open>==\<close>), so a float is modelled by the number it denotes: a finite float
  by its real value, and the three special values by constructors of their own. The
  comparisons follow IEEE 754: every comparison with NaN is false.
\<close>

datatype float64 = Fin real | PosInf | NegInf | NaN

fun gt64 :: "float64 \<Rightarrow> float64 \<Rightarrow> bool" where
  "gt64 (Fin a) (Fin b) = (b < a)"
| "gt64 (Fin a) NegInf = True"
| "gt64 PosInf (Fin b) = True"
| "gt64 PosInf NegInf = True"
| "gt64 _ _ = False"

definition lt64 :: "float64 \<Rightarrow> float64 \<Rightarrow> bool" where
  "lt64 a b = gt64 b a"

fun eq64 :: "float64 \<Rightarrow> float64 \<Rightarrow> bool" where
  "eq64 (Fin a) (Fin b) = (a = b)"
| "eq64 PosInf PosInf = True"
| "eq64 NegInf NegInf = True"
| "eq64 _ _ = False"

text \<open>\<open>const nullValue = -999\<close>: the value that stands for a missing sample.\<close>

definition nullValue :: float64 where
  "nullValue = Fin (- 999)"

subsection \<open>Datasources\<close>

record Datasource =
  Title :: string
  Query :: string
  Prom :: string
  Unit :: string
  Warn :: float64
  Error :: float64

subsection \<open>Ways the process ends\<close>

text \<open>
  Every exit of the process is a value: \<open>Returned\<close> is the \<open>return\<close> of \<open>main\<close> on the
  quit keys, \<open>FatalNoDatasources\<close> the \<open>log.Fatalf\<close> of \<open>loadConfig\<close> on an empty list,
  \<open>ExitClient\<close> the \<open>os.Exit(1)\<close> after a failed client construction,
  \<open>FatalNotMatrix\<close> the \<open>log.Fatalf\<close> on a result that is not a matrix, and the panics
  are Go's run-time panics: index out of range on \<open>result.(model.Matrix)[0]\<close> and on
  \<open>dsConfig[i]\<close>, and the integer division by zero of \<open>%\<close>.
\<close>

datatype halt =
    Returned | FatalNoDatasources | ExitClient | FatalNotMatrix
  | PanicMatrixIndex | PanicDatasourceIndex | PanicDivideByZero

section \<open>The range query and its alignment\<close>

text \<open>
  Instants are integers, in nanoseconds since the Unix epoch, the resolution of
  \<open>time.Time\<close>. A backend sample carries a \<open>model.Time\<close>, in milliseconds; its method
  \<open>Time()\<close> converts it. Both \<open>time.Unix\<close> and a rounded \<open>time.Now()\<close> hold no monotonic
  reading and the local location, so \<open>==\<close> on them is equality of instants.
\<close>

definition Second :: int where
  "Second = 1000000000"

definition Time_of :: "int \<Rightarrow> int" where
  "Time_of ms = ms * 1000000"

record SamplePair =
  Timestamp :: int
  Value :: float64

record SampleStream =
  Metric :: "(string \<times> string) list"
  Values :: "SamplePair list"

text \<open>The result types of the backend's client: only a matrix carries what is used.\<close>

datatype model_Value = Matrix "SampleStream list" | Vector | Scalar | StringValue | NoValue

datatype query_reply = ReplyErr | ReplyOk model_Value

text \<open>
  A display timezone is used only through \<open>t.In(tz).Format("15:04")\<close>, so a location
  is represented by that function of the instant.
\<close>

type_synonym Location = "int \<Rightarrow> string"

text \<open>
  What the world answers during one run of the sync task: the terminal's dimensions,
  whether a client can be built for an address, the clock (already rounded to the second,
  as \<open>time.Now().Round(time.Second)\<close>), and the reply of the backend to a range query
  (address, query, start, end, step).
\<close>

record world =
  TerminalDimensions :: "int \<times> int"
  NewClient_ok :: "string \<Rightarrow> bool"
  timeNow :: int
  QueryRange :: "string \<Rightarrow> string \<Rightarrow> int \<times> int \<times> int \<Rightarrow> query_reply"

fun findValue :: "SamplePair list \<Rightarrow> int \<Rightarrow> float64 \<Rightarrow> float64" where
  "findValue [] timestamp nilValue = nilValue"
| "findValue (sampleValue # rest) timestamp nilValue =
     (if Time_of (Timestamp sampleValue) = timestamp then Value sampleValue
      else findValue rest timestamp nilValue)"

definition findPromValue :: "SampleStream \<Rightarrow> int \<Rightarrow> float64 \<Rightarrow> float64" where
  "findPromValue sampleSet timestamp nilValue = findValue (Values sampleSet) timestamp nilValue"

text \<open>
  The loop \<open>for i := length; i >= 0; i--\<close>. Each turn indexes the matrix at 0, which
  panics on a matrix without series.
\<close>

function alignLoop ::
  "SampleStream list \<Rightarrow> int \<Rightarrow> int \<Rightarrow> float64 \<Rightarrow> Location \<Rightarrow> int
     \<Rightarrow> float64 list \<times> string list \<Rightarrow> halt + float64 list \<times> string list" where
  "alignLoop m now intervalSeconds nilValue tz i (vals, labels) =
     (if i < 0 then Inr (vals, labels)
      else case m of
          [] \<Rightarrow> Inl PanicMatrixIndex
        | s # _ \<Rightarrow>
            (let timeThen = now - Second * (i * intervalSeconds)
             in alignLoop m now intervalSeconds nilValue tz (i - 1)
                  (vals @ [findPromValue s timeThen nilValue], labels @ [tz timeThen])))"
  by pat_completeness auto
termination
  by (relation "measure (\<lambda>(m, now, iv, nv, tz, i, acc). nat (i + 1))") auto

declare alignLoop.simps [simp del]

definition prometheusQueryRange ::
  "world \<Rightarrow> string \<Rightarrow> string \<Rightarrow> int \<Rightarrow> int \<Rightarrow> float64 \<Rightarrow> Location
     \<Rightarrow> halt + float64 list \<times> string list" where
  "prometheusQueryRange w promFlag query len intervalSeconds nilValue tz =
     (if \<not> NewClient_ok w promFlag then Inl ExitClient
      else
        let r = (timeNow w - (len * intervalSeconds) * Second, timeNow w,
                 intervalSeconds * Second)
        in case QueryRange w promFlag query r of
            ReplyErr \<Rightarrow> Inr ([], [])
          | ReplyOk result \<Rightarrow>
              (case result of
                  Matrix m \<Rightarrow> alignLoop m (timeNow w) intervalSeconds nilValue tz len ([], [])
                | _ \<Rightarrow> Inl FatalNotMatrix))"


section \<open>Threshold colours\<close>

text \<open>The colours of the widget library that the program assigns.\<close>

datatype Color = ColorRed | ColorGreen | ColorYellow | ColorMagenta

text \<open>
  The body of \<open>for _, d := range r0\<close>: one point against the thresholds of the
  datasource and the colour recorded so far, in the order of the source's branches.
\<close>

definition colorStep :: "float64 \<Rightarrow> float64 \<Rightarrow> Color \<Rightarrow> float64 \<Rightarrow> Color" where
  "colorStep warn err c d =
     (if gt64 d warn \<and> c = ColorGreen then ColorYellow
      else if eq64 d nullValue then ColorMagenta
      else if gt64 d err then ColorRed
      else c)"

fun colorScan :: "float64 \<Rightarrow> float64 \<Rightarrow> Color \<Rightarrow> float64 list \<Rightarrow> Color" where
  "colorScan warn err c [] = c"
| "colorScan warn err c (d # r0) = colorScan warn err (colorStep warn err c d) r0"

text \<open>
  \<open>chart0.LineColors[0]\<close> after lines 174 to 184: green, and the scan only when the
  warn threshold is positive.
\<close>

definition lineColor :: "float64 \<Rightarrow> float64 \<Rightarrow> float64 list \<Rightarrow> Color" where
  "lineColor warn err r0 =
     (if gt64 warn (Fin 0) then colorScan warn err ColorGreen r0 else ColorGreen)"

text \<open>\<open>fontColor\<close> after lines 167 and 185 to 191, from the last point only.\<close>

definition fontColorOf :: "float64 \<Rightarrow> float64 \<Rightarrow> float64 list \<Rightarrow> string" where
  "fontColorOf warn err r0 =
     (if gt64 warn (Fin 0) then
        (if gt64 (last r0) err then ''red''
         else if lt64 (last r0) (Fin 0) then ''red''
         else if gt64 (last r0) warn then ''yellow''
         else ''white'')
      else ''white'')"

section \<open>Widgets and the state of \<open>main\<close>\<close>

text \<open>
  A text is kept as the call that builds it, one constructor for each \<open>Sprintf\<close> of the
  source with its arguments, since the glyph rendering is the figure library's:
  \<^item> \<open>UnsupportedText w h\<close>: \<open>"[Unsupported terminal size of %0d x %0d\nResize or (q)uit](fg:red)"\<close>;
  \<^item> \<open>ClockText font width colour\<close>: the clock figure, right aligned to \<open>width\<close>;
  \<^item> \<open>DateText font width\<close>: the day, date and month figures, right aligned;
  \<^item> \<open>MetricValueText font title value unit colour\<close>: the figures of the title and of
    \<open>"%01.0f%s"\<close>, the second in \<open>colour\<close>;
  \<^item> \<open>MetricErrorText font title\<close>: the figures of the title and of \<open>"PROM ERROR"\<close>, in red;
  \<^item> \<open>ChartValueTitle title value unit\<close>: \<open>"%s %01.0f%s"\<close>;
  \<^item> \<open>ChartErrorTitle title prom\<close>: \<open>"%s PROM ERROR %s"\<close>.
\<close>

datatype markup =
    NoText
  | UnsupportedText int int
  | ClockText string int string
  | DateText string int
  | MetricValueText string string float64 string string
  | MetricErrorText string string
  | ChartValueTitle string float64 string
  | ChartErrorTitle string string

type_synonym rect = "int \<times> int \<times> int \<times> int"

record Paragraph =
  Rect :: rect
  Text :: markup

record Plot =
  PlotRect :: rect
  PlotTitle :: markup
  Data :: "float64 list list"
  DataLabels :: "string list"
  LabelAxesX :: bool
  LineColors0 :: Color

text \<open>What reached the terminal: each \<open>ui.Clear\<close> and each widget handed to \<open>ui.Render\<close>.\<close>

datatype draw =
    Clear
  | Render_pClock Paragraph
  | Render_pDate Paragraph
  | Render_pMetric Paragraph
  | Render_chart0 Plot

text \<open>
  The package variables and the variables of \<open>main\<close> that its closures share. Two fields
  are not in the source: \<open>screen\<close> records the draws in order, and \<open>polled\<close> the value
  of \<open>i\<close> at each run of \<open>syncProm\<close>.
\<close>

record state =
  width :: int
  height :: int
  fontClock :: string
  fontClockWidth :: int
  fontDate :: string
  fontDateWidth :: int
  fontLabel :: string
  refreshUi :: bool
  syncPromCount :: int
  pClock :: Paragraph
  pDate :: Paragraph
  pMetric :: Paragraph
  chart0 :: Plot
  screen :: "draw list"
  polled :: "int list"

record config =
  dsConfig :: "Datasource list"
  timezone :: Location

definition datasourceCount :: "config \<Rightarrow> int" where
  "datasourceCount cfg = int (length (dsConfig cfg))"


text \<open>
  The start of \<open>main\<close>: the zero values of the package variables, the initial values of
  the locals, and new widgets without a border. A new plot takes its line colours from
  the library's theme, whose first is red.
\<close>

definition NewParagraph :: Paragraph where
  "NewParagraph = \<lparr>Rect = (0, 0, 0, 0), Text = NoText\<rparr>"

definition NewPlot :: Plot where
  "NewPlot = \<lparr>PlotRect = (0, 0, 0, 0), PlotTitle = NoText, Data = [], DataLabels = [],
               LabelAxesX = False, LineColors0 = ColorRed\<rparr>"

definition mainStart :: state where
  "mainStart =
     \<lparr>width = 0, height = 0, fontClock = [], fontClockWidth = 0, fontDate = [],
      fontDateWidth = 0, fontLabel = [], refreshUi = True,
      syncPromCount = 0, pClock = NewParagraph, pDate = NewParagraph,
      pMetric = NewParagraph, chart0 = NewPlot, screen = [], polled = []\<rparr>"

section \<open>The layout\<close>

definition SetRect :: "int \<Rightarrow> int \<Rightarrow> int \<Rightarrow> int \<Rightarrow> Paragraph \<Rightarrow> Paragraph" where
  "SetRect x1 y1 x2 y2 p = p\<lparr>Rect := (x1, y1, x2, y2)\<rparr>"

definition SetPlotRect :: "int \<Rightarrow> int \<Rightarrow> int \<Rightarrow> int \<Rightarrow> Plot \<Rightarrow> Plot" where
  "SetPlotRect x1 y1 x2 y2 p = p\<lparr>PlotRect := (x1, y1, x2, y2)\<rparr>"

text \<open>
  \<open>resizeUi\<close>, lines 111 to 164: the dimensions are read from the terminal, then the
  first branch whose condition holds is taken.
\<close>

definition resizeUi :: "world \<Rightarrow> state \<Rightarrow> state" where
  "resizeUi w s0 =
     (let s = s0\<lparr>width := fst (TerminalDimensions w), height := snd (TerminalDimensions w)\<rparr>
      in if width s = 240 \<and> height s = 30 then
           s\<lparr>pClock := SetRect 100 (- 3) (width s - 28) 17 (pClock s),
             pDate := SetRect (width s - 30) (- 1) (width s + 1) 17 (pDate s),
             chart0 := SetPlotRect 0 16 (width s + 1) (height s + 1) (chart0 s),
             pMetric := SetRect 0 4 (width s - 140) 17 (pMetric s),
             fontClockWidth := 109,
             fontDateWidth := 29,
             fontClock := ''doh'',
             fontDate := ''standard'',
             fontLabel := ''standard'',
             screen := screen s @ [Clear]\<rparr>
         else if width s \<ge> 131 \<and> height s \<ge> 30 then
           s\<lparr>pClock := SetRect 0 (- 3) (width s - 28) 17 (pClock s),
             pDate := SetRect (width s - 30) (- 1) (width s + 1) 17 (pDate s),
             chart0 := SetPlotRect 0 17 (width s + 1) (height s + 1) (chart0 s),
             pMetric := SetRect 0 4 (width s - 140) 17 (pMetric s),
             fontClockWidth := width s - 28 - 4,
             fontDateWidth := 29,
             fontClock := ''doh'',
             fontDate := ''standard'',
             fontLabel := [],
             screen := screen s @ [Clear]\<rparr>
         else if width s \<ge> 68 \<and> height s \<ge> 20 then
           s\<lparr>pClock := SetRect 0 0 (width s - 16) 11 (pClock s),
             pDate := SetRect (width s - 18) (- 1) (width s + 1) 11 (pDate s),
             chart0 := SetPlotRect 0 11 (width s + 1) (height s + 1) (chart0 s),
             pMetric := SetRect 0 4 (width s - 140) 11 (pMetric s),
             fontClockWidth := width s - 16 - 4,
             fontDateWidth := 17,
             fontClock := ''colossal'',
             fontDate := ''mini'',
             fontLabel := [],
             screen := screen s @ [Clear]\<rparr>
         else if width s \<ge> 40 \<and> height s \<ge> 16 then
           s\<lparr>pClock := SetRect (- 2) (- 1) (width s - 4) 6 (pClock s),
             pDate := SetRect (width s - 5) 1 (width s + 1) 6 (pDate s),
             chart0 := SetPlotRect 0 6 (width s + 1) (height s + 1) (chart0 s),
             pMetric := SetRect 0 4 (width s - 140) 6 (pMetric s),
             fontClockWidth := width s - 6 - 2,
             fontDateWidth := 4,
             fontClock := ''standard'',
             fontDate := ''term'',
             fontLabel := [],
             screen := screen s @ [Clear]\<rparr>
         else
           (let p = (SetRect (- 1) (- 1) (width s + 1) (height s + 1) (pClock s))
                      \<lparr>Text := UnsupportedText (width s) (height s)\<rparr>
            in s\<lparr>pClock := p,
                 fontClock := [],
                 screen := screen s @ [Clear, Render_pClock p]\<rparr>))"


section \<open>The sync task\<close>

text \<open>
  \<open>syncPromCount\<close> is a Go \<open>int\<close>, of 64 bits, and every key adds to it: its additions
  wrap around. The dimensions of a terminal and the window of 60 steps are small, and
  their arithmetic is left unbounded.
\<close>

definition wrap64 :: "int \<Rightarrow> int" where
  "wrap64 x = (x + 2 ^ 63) mod 2 ^ 64 - 2 ^ 63"

definition clockColor :: string where
  "clockColor = ''yellow''"

text \<open>The branch \<open>len(r0) > 0\<close> of \<open>syncProm\<close>, lines 171 to 201.\<close>

definition showValues :: "Datasource \<Rightarrow> float64 list \<Rightarrow> string list \<Rightarrow> state \<Rightarrow> state" where
  "showValues ds r0 l0 s =
     (let c = (chart0 s)\<lparr>Data := [r0], DataLabels := l0, LabelAxesX := True,
                         LineColors0 := lineColor (Warn ds) (Error ds) r0\<rparr>;
          fontColor = fontColorOf (Warn ds) (Error ds) r0
      in if length (fontLabel s) > 0 then
           (let p = (pMetric s)\<lparr>Text := MetricValueText (fontLabel s) (Title ds) (last r0)
                                          (Unit ds) fontColor\<rparr>
            in s\<lparr>chart0 := c, pMetric := p,
                 screen := screen s @ [Render_pMetric p, Render_chart0 c]\<rparr>)
         else
           (let c' = c\<lparr>PlotTitle := ChartValueTitle (Title ds) (last r0) (Unit ds)\<rparr>
            in s\<lparr>chart0 := c', screen := screen s @ [Render_chart0 c']\<rparr>))"

text \<open>The other branch, lines 203 to 212: the query gave no point.\<close>

definition showError :: "Datasource \<Rightarrow> state \<Rightarrow> state" where
  "showError ds s =
     (if length (fontLabel s) > 0 then
        (let p = (pMetric s)\<lparr>Text := MetricErrorText (fontLabel s) (Title ds)\<rparr>
         in s\<lparr>pMetric := p, screen := screen s @ [Render_pMetric p, Render_chart0 (chart0 s)]\<rparr>)
      else
        (let c = (chart0 s)\<lparr>PlotTitle := ChartErrorTitle (Title ds) (Prom ds)\<rparr>
         in s\<lparr>chart0 := c, screen := screen s @ [Render_chart0 c]\<rparr>))"

text \<open>
  \<open>syncProm\<close>, lines 166 to 216. Go's \<open>%\<close> truncates towards zero (\<open>smod\<close>) and panics on
  a zero divisor; \<open>dsConfig[i]\<close> panics outside the list.
\<close>

definition syncProm :: "config \<Rightarrow> world \<Rightarrow> state \<Rightarrow> halt + state" where
  "syncProm cfg w s =
     (if datasourceCount cfg = 0 then Inl PanicDivideByZero
      else
        let i = syncPromCount s smod datasourceCount cfg
        in if i < 0 \<or> datasourceCount cfg \<le> i then Inl PanicDatasourceIndex
           else
             let ds = dsConfig cfg ! nat i
             in case prometheusQueryRange w (Prom ds) (Query ds) (width s - 8) 60 nullValue
                       (timezone cfg) of
                 Inl h \<Rightarrow> Inl h
               | Inr (r0, l0) \<Rightarrow>
                   (let s' = (if length r0 > 0 then showValues ds r0 l0 s else showError ds s)
                    in Inr (s'\<lparr>syncPromCount := wrap64 (syncPromCount s' + 1),
                               polled := polled s' @ [i]\<rparr>)))"

text \<open>\<open>syncClock\<close>, lines 218 to 246: the two paragraphs, from the fonts and the widths.\<close>

definition syncClock :: "state \<Rightarrow> state" where
  "syncClock s =
     (let pc = (pClock s)\<lparr>Text := ClockText (fontClock s) (fontClockWidth s) clockColor\<rparr>;
          pd = (pDate s)\<lparr>Text := DateText (fontDate s) (fontDateWidth s)\<rparr>
      in s\<lparr>pClock := pc, pDate := pd, screen := screen s @ [Render_pClock pc, Render_pDate pd]\<rparr>)"

text \<open>\<open>syncTerminal\<close>, lines 248 to 257.\<close>

definition syncTerminal :: "config \<Rightarrow> world \<Rightarrow> state \<Rightarrow> halt + state" where
  "syncTerminal cfg w s0 =
     (let s = (if refreshUi s0 then (resizeUi w s0)\<lparr>refreshUi := False\<rparr> else s0)
      in if length (fontClock s) > 0 then syncProm cfg w (syncClock s) else Inr s)"

definition markRefresh :: "state \<Rightarrow> state" where
  "markRefresh s = s\<lparr>refreshUi := True\<rparr>"

section \<open>The event loop\<close>

text \<open>
  \<open>strconv.Atoi\<close> on a string of decimal digits; anything else is an error. The loop
  applies it to the eleven one-character identifiers of the quick jumps only.
\<close>

definition digitVal :: "char \<Rightarrow> int option" where
  "digitVal c = map_of (zip ''0123456789'' [0, 1, 2, 3, 4, 5, 6, 7, 8, 9]) c"

fun atoiDigits :: "int \<Rightarrow> string \<Rightarrow> int option" where
  "atoiDigits acc [] = Some acc"
| "atoiDigits acc (c # cs) =
     (case digitVal c of None \<Rightarrow> None | Some d \<Rightarrow> atoiDigits (10 * acc + d) cs)"

definition Atoi :: "string \<Rightarrow> int option" where
  "Atoi s = (if s = [] then None else atoiDigits 0 s)"

text \<open>
  The identifiers of the case \<open>"`", "1", ..., "9", "0"\<close>, each of one character; the
  first is the backquote.
\<close>

definition quickJumps :: "string list" where
  "quickJumps = [CHR 0x60] # map (\<lambda>c. [c]) ''1234567890''"

text \<open>
  What the loop of \<open>main\<close> receives: a terminal event with its identifier, or a firing
  of one of the two scheduled jobs. A job started by \<open>cron.RunByTag("sync")\<close> is taken to
  run to its end before the next event is handled, so that a run of the program is a
  sequence of events, each with the world it meets.
\<close>

datatype event = UiEvent string | CronSync | CronHourly

fun mainStep :: "config \<Rightarrow> world \<Rightarrow> event \<Rightarrow> state \<Rightarrow> halt + state" where
  "mainStep cfg w (UiEvent ID) s =
     (if ID = ''q'' \<or> ID = ''<C-c>'' then Inl Returned
      else if ID \<in> set quickJumps then
        (let i = (case Atoi ID of None \<Rightarrow> 0 | Some i \<Rightarrow> i)
         in syncTerminal cfg w (s\<lparr>syncPromCount := i\<rparr>))
      else if ID = ''<Left>'' \<or> ID = ''<Down>'' then
        syncTerminal cfg w
          (s\<lparr>syncPromCount := wrap64 (syncPromCount s + (datasourceCount cfg - 2))\<rparr>)
      else if ID = ''<Right>'' \<or> ID = ''<Up>'' then
        syncTerminal cfg w s
      else if ID = ''<Space>'' then
        syncTerminal cfg w
          (s\<lparr>syncPromCount := wrap64 (syncPromCount s + (datasourceCount cfg - 1)),
             refreshUi := True\<rparr>)
      else if ID = ''<Resize>'' then
        syncTerminal cfg w
          (s\<lparr>syncPromCount := wrap64 (syncPromCount s + (datasourceCount cfg - 1)),
             refreshUi := True\<rparr>)
      else Inr s)"
| "mainStep cfg w CronSync s = syncTerminal cfg w s"
| "mainStep cfg w CronHourly s = Inr (markRefresh s)"

fun mainLoop :: "config \<Rightarrow> (world \<times> event) list \<Rightarrow> state \<Rightarrow> halt + state" where
  "mainLoop cfg [] s = Inr s"
| "mainLoop cfg ((w, e) # rest) s =
     (case mainStep cfg w e s of Inl h \<Rightarrow> Inl h | Inr s' \<Rightarrow> mainLoop cfg rest s')"

section \<open>Inputs for the worked examples\<close>

text \<open>
  A location for the examples: Coordinated Universal Time, whose \<open>15:04\<close> format is the
  hour and the minute of the day in two digits each.
\<close>

definition twoDigits :: "int \<Rightarrow> string" where
  "twoDigits n = [''0123456789'' ! nat (n div 10), ''0123456789'' ! nat (n mod 10)]"

definition utc :: Location where
  "utc t = twoDigits ((t div (3600 * Second)) mod 24) @ '':'' @ twoDigits ((t div (60 * Second)) mod 60)"

text \<open>
  A series with samples at 940 s and 1000 s after the epoch, and a world whose clock
  reads 1000 s and whose backend answers every range query with that series alone.
\<close>

definition sparseSeries :: SampleStream where
  "sparseSeries =
     \<lparr>Metric = [], Values = [\<lparr>Timestamp = 940000, Value = Fin 7\<rparr>,
                              \<lparr>Timestamp = 1000000, Value = Fin 9\<rparr>]\<rparr>"

definition anyAddress :: "string \<Rightarrow> bool" where
  "anyAddress a = True"

definition answerSparse :: "string \<Rightarrow> string \<Rightarrow> int \<times> int \<times> int \<Rightarrow> query_reply" where
  "answerSparse a q r = ReplyOk (Matrix [sparseSeries])"

definition sparseWorld :: world where
  "sparseWorld =
     \<lparr>TerminalDimensions = (80, 24), NewClient_ok = anyAddress,
      timeNow = 1000 * Second, QueryRange = answerSparse\<rparr>"

text \<open>
  A full series, with a sample at each of the three grid instants 880 s, 940 s and
  1000 s, and a second series; backends that answer with the full series, with both
  series, with a matrix without series, and with a vector.
\<close>

definition fullSeries :: SampleStream where
  "fullSeries =
     \<lparr>Metric = [], Values = [\<lparr>Timestamp = 880000, Value = Fin 5\<rparr>,
                              \<lparr>Timestamp = 940000, Value = Fin 7\<rparr>,
                              \<lparr>Timestamp = 1000000, Value = Fin 9\<rparr>]\<rparr>"

definition answerFull :: "string \<Rightarrow> string \<Rightarrow> int \<times> int \<times> int \<Rightarrow> query_reply" where
  "answerFull a q r = ReplyOk (Matrix [fullSeries])"

definition fullWorld :: world where
  "fullWorld =
     \<lparr>TerminalDimensions = (80, 24), NewClient_ok = anyAddress,
      timeNow = 1000 * Second, QueryRange = answerFull\<rparr>"

definition answerTwo :: "string \<Rightarrow> string \<Rightarrow> int \<times> int \<times> int \<Rightarrow> query_reply" where
  "answerTwo a q r = ReplyOk (Matrix [sparseSeries, fullSeries])"

definition twoSeriesWorld :: world where
  "twoSeriesWorld =
     \<lparr>TerminalDimensions = (80, 24), NewClient_ok = anyAddress,
      timeNow = 1000 * Second, QueryRange = answerTwo\<rparr>"

definition answerEmpty :: "string \<Rightarrow> string \<Rightarrow> int \<times> int \<times> int \<Rightarrow> query_reply" where
  "answerEmpty a q r = ReplyOk (Matrix [])"

definition emptyMatrixWorld :: world where
  "emptyMatrixWorld =
     \<lparr>TerminalDimensions = (80, 24), NewClient_ok = anyAddress,
      timeNow = 1000 * Second, QueryRange = answerEmpty\<rparr>"

definition answerVector :: "string \<Rightarrow> string \<Rightarrow> int \<times> int \<times> int \<Rightarrow> query_reply" where
  "answerVector a q r = ReplyOk Vector"

definition vectorWorld :: world where
  "vectorWorld =
     \<lparr>TerminalDimensions = (80, 24), NewClient_ok = anyAddress,
      timeNow = 1000 * Second, QueryRange = answerVector\<rparr>"

text \<open>
  The strongest classification seen in a window, in the words of the specification
  (missing before error before warn before neutral), to compare the scan with.
\<close>

definition strongestObserved :: "float64 \<Rightarrow> float64 \<Rightarrow> float64 list \<Rightarrow> Color" where
  "strongestObserved warn err r0 =
     (if list_ex (\<lambda>d. eq64 d nullValue) r0 then ColorMagenta
      else if list_ex (\<lambda>d. gt64 d err) r0 then ColorRed
      else if list_ex (\<lambda>d. gt64 d warn) r0 then ColorYellow
      else ColorGreen)"

text \<open>A datasource with the thresholds 10 and 40.\<close>

definition cpuSource :: Datasource where
  "cpuSource =
     \<lparr>Title = ''cpu'', Query = ''cpu_usage'', Prom = ''http://prom:9090'', Unit = ''%'',
      Warn = Fin 10, Error = Fin 40\<rparr>"

section \<open>Observations on a state\<close>



text \<open>
  The strings of the configuration that a text shows, that a draw shows, and whether a
  string is shown by some draw of a screen. The screen of an ended process is empty.
\<close>

fun markupStrings :: "markup \<Rightarrow> string list" where
  "markupStrings (MetricValueText font title v unit colour) = [title, unit]"
| "markupStrings (MetricErrorText font title) = [title, ''PROM ERROR'']"
| "markupStrings (ChartValueTitle title v unit) = [title, unit]"
| "markupStrings (ChartErrorTitle title prom) = [title, ''PROM ERROR'', prom]"
| "markupStrings _ = []"

fun drawStrings :: "draw \<Rightarrow> string list" where
  "drawStrings Clear = []"
| "drawStrings (Render_pClock p) = markupStrings (Text p)"
| "drawStrings (Render_pDate p) = markupStrings (Text p)"
| "drawStrings (Render_pMetric p) = markupStrings (Text p)"
| "drawStrings (Render_chart0 c) = markupStrings (PlotTitle c)"

definition shownOn :: "string \<Rightarrow> draw list \<Rightarrow> bool" where
  "shownOn x ds = list_ex (\<lambda>d. x \<in> set (drawStrings d)) ds"

definition screenOf :: "halt + state \<Rightarrow> draw list" where
  "screenOf r = (case r of Inl h \<Rightarrow> [] | Inr s \<Rightarrow> screen s)"

definition polledOf :: "halt + state \<Rightarrow> int list" where
  "polledOf r = (case r of Inl h \<Rightarrow> [] | Inr s \<Rightarrow> polled s)"

text \<open>
  Configurations of one and of three datasources, and worlds with a terminal of 240 by
  30, of 80 by 24 and of 30 by 10, whose backend fails.
\<close>

definition memSource :: Datasource where
  "memSource =
     \<lparr>Title = ''mem'', Query = ''mem_usage'', Prom = ''http://prom:9090'', Unit = ''%'',
      Warn = Fin 0, Error = Fin 0\<rparr>"

definition netSource :: Datasource where
  "netSource =
     \<lparr>Title = ''net'', Query = ''net_rate'', Prom = ''http://other:9090'', Unit = ''kb'',
      Warn = Fin 100, Error = Fin 200\<rparr>"

definition oneSource :: config where
  "oneSource = \<lparr>dsConfig = [cpuSource], timezone = utc\<rparr>"

definition threeSources :: config where
  "threeSources = \<lparr>dsConfig = [cpuSource, memSource, netSource], timezone = utc\<rparr>"

definition answerDown :: "string \<Rightarrow> string \<Rightarrow> int \<times> int \<times> int \<Rightarrow> query_reply" where
  "answerDown a q r = ReplyErr"

definition downWorld :: "int \<times> int \<Rightarrow> world" where
  "downWorld dims =
     \<lparr>TerminalDimensions = dims, NewClient_ok = anyAddress,
      timeNow = 1000 * Second, QueryRange = answerDown\<rparr>"


text \<open>
  The state that a step leaves, for the examples (the starting state when the process
  ended), and two runs: a sync of three sources on a terminal of 80 by 24 whose backend
  is down, then the key 7 and the key for the previous source.
\<close>

definition stateOf :: "halt + state \<Rightarrow> state" where
  "stateOf r = (case r of Inl h \<Rightarrow> mainStart | Inr s \<Rightarrow> s)"



text \<open>
  The states after \<open>resizeUi\<close> at the start of \<open>main\<close>, on a terminal of 80 by 24 and
  on one of 240 by 30.
\<close>

definition smallScreen :: state where
  "smallScreen = resizeUi (downWorld (80, 24)) mainStart"

definition panelScreen :: state where
  "panelScreen = resizeUi (downWorld (240, 30)) mainStart"



section \<open>Properties of the alignment\<close>

text \<open>
  With a first series in the matrix, the loop over \<open>i = len, ..., 0\<close> appends one value
  and one label for each grid instant, the oldest first.
\<close>

lemma alignLoop_series:
  "- 1 \<le> i \<Longrightarrow>
   alignLoop (s # rest) now iv nv tz i (vs, ls) =
     Inr (vs @ map (\<lambda>j. findPromValue s (now - Second * (j * iv)) nv) (rev [0..i]),
          ls @ map (\<lambda>j. tz (now - Second * (j * iv))) (rev [0..i]))"
proof (induction "nat (i + 1)" arbitrary: i vs ls)
  case 0
  then have "i = - 1" by simp
  then show ?case by (simp add: alignLoop.simps)
next
  case (Suc n)
  then have i: "0 \<le> i" and n: "n = nat ((i - 1) + 1)" and m: "- 1 \<le> i - 1" by simp_all
  have up: "rev [0..i] = i # rev [0..i - 1]"
    using i by (simp add: upto_rec2)
  show ?case
    using i Suc.hyps(1) [OF n m]
    by (subst alignLoop.simps) (simp add: up Let_def)
qed




lemma query_first_series:
  assumes "NewClient_ok w promFlag"
    and "QueryRange w promFlag query
           (timeNow w - (len * step) * Second, timeNow w, step * Second)
         = ReplyOk (Matrix (s # rest))"
    and "0 \<le> len"
  shows "prometheusQueryRange w promFlag query len step nv tz =
     Inr (map (\<lambda>j. findPromValue s (timeNow w - Second * (j * step)) nv) (rev [0..len]),
          map (\<lambda>j. tz (timeNow w - Second * (j * step))) (rev [0..len]))"
  using assms by (simp add: prometheusQueryRange_def alignLoop_series)

lemmas example_worlds =
  sparseWorld_def fullWorld_def twoSeriesWorld_def emptyMatrixWorld_def vectorWorld_def
  anyAddress_def answerSparse_def answerFull_def answerTwo_def answerEmpty_def
  answerVector_def sparseSeries_def fullSeries_def

lemmas example_run =
  prometheusQueryRange_def alignLoop.simps findPromValue_def Time_of_def Second_def
  utc_def twoDigits_def nullValue_def





section \<open>Results of another shape\<close>

text \<open>
  Claim C7, counterexample. A backend that answers with a matrix of two series does not
  end the process: \<open>prometheusQueryRange\<close> returns the alignment of the first series.
\<close>

theorem two_series_not_fatal:
  "prometheusQueryRange twoSeriesWorld ''http://prom'' ''up'' 2 60 nullValue utc
     = Inr ([nullValue, Fin 7, Fin 9], [''00:14'', ''00:15'', ''00:16''])"
  by (simp add: example_worlds example_run)

text \<open>
  Claim C7, as amended. Once the client is built and the backend has answered with a
  result: a result that is not a matrix ends the process (\<open>log.Fatalf\<close>); with a window
  \<open>len \<ge> 0\<close>, a matrix without series ends it too, by the index panic of the first turn
  of the loop; and a matrix with one series or more is not refused: its first series is
  aligned and returned, whatever follows it in the matrix.
\<close>

theorem result_shapes:
  assumes "NewClient_ok w promFlag"
    and "QueryRange w promFlag query
           (timeNow w - (len * step) * Second, timeNow w, step * Second) = ReplyOk result"
  shows "((\<forall>m. result \<noteq> Matrix m) \<longrightarrow>
            prometheusQueryRange w promFlag query len step nilValue tz = Inl FatalNotMatrix)
     \<and> (result = Matrix [] \<and> 0 \<le> len \<longrightarrow>
            prometheusQueryRange w promFlag query len step nilValue tz = Inl PanicMatrixIndex)
     \<and> (\<forall>s rest. result = Matrix (s # rest) \<and> 0 \<le> len \<longrightarrow>
            prometheusQueryRange w promFlag query len step nilValue tz =
              Inr (map (\<lambda>j. findPromValue s (timeNow w - Second * (j * step)) nilValue)
                     (rev [0..len]),
                   map (\<lambda>j. tz (timeNow w - Second * (j * step))) (rev [0..len])))"
proof (intro conjI allI impI)
  assume "\<forall>m. result \<noteq> Matrix m"
  then show "prometheusQueryRange w promFlag query len step nilValue tz = Inl FatalNotMatrix"
    using assms by (cases result) (simp_all add: prometheusQueryRange_def)
next
  assume "result = Matrix [] \<and> 0 \<le> len"
  then show "prometheusQueryRange w promFlag query len step nilValue tz = Inl PanicMatrixIndex"
    using assms by (simp add: prometheusQueryRange_def alignLoop.simps [of "[]"])
next
  fix s rest
  assume "result = Matrix (s # rest) \<and> 0 \<le> len"
  then show "prometheusQueryRange w promFlag query len step nilValue tz =
              Inr (map (\<lambda>j. findPromValue s (timeNow w - Second * (j * step)) nilValue)
                     (rev [0..len]),
                   map (\<lambda>j. tz (timeNow w - Second * (j * step))) (rev [0..len]))"
    using assms query_first_series [of w promFlag query len step s rest] by simp
qed

text \<open>
  The theorem at a vector, at a matrix without series and at a matrix of two series.
\<close>

theorem result_shapes_witness:
  "prometheusQueryRange vectorWorld ''http://prom'' ''up'' 2 60 nullValue utc
     = Inl FatalNotMatrix
   \<and> prometheusQueryRange emptyMatrixWorld ''http://prom'' ''up'' 2 60 nullValue utc
     = Inl PanicMatrixIndex
   \<and> prometheusQueryRange twoSeriesWorld ''http://prom'' ''up'' 2 60 nullValue utc
     = Inr (map (\<lambda>j. findPromValue sparseSeries (timeNow twoSeriesWorld - Second * (j * 60))
                      nullValue) (rev [0..2]),
            map (\<lambda>j. utc (timeNow twoSeriesWorld - Second * (j * 60))) (rev [0..2]))"
proof -
  have c: "NewClient_ok vectorWorld ''http://prom''"
       "NewClient_ok emptyMatrixWorld ''http://prom''"
       "NewClient_ok twoSeriesWorld ''http://prom''"
    by (simp_all add: example_worlds)
  have q1: "QueryRange vectorWorld ''http://prom'' ''up''
         (timeNow vectorWorld - (2 * 60) * Second, timeNow vectorWorld, 60 * Second)
       = ReplyOk Vector"
    by (simp add: vectorWorld_def answerVector_def)
  have q2: "QueryRange emptyMatrixWorld ''http://prom'' ''up''
         (timeNow emptyMatrixWorld - (2 * 60) * Second, timeNow emptyMatrixWorld, 60 * Second)
       = ReplyOk (Matrix [])"
    by (simp add: emptyMatrixWorld_def answerEmpty_def)
  have q3: "QueryRange twoSeriesWorld ''http://prom'' ''up''
         (timeNow twoSeriesWorld - (2 * 60) * Second, timeNow twoSeriesWorld, 60 * Second)
       = ReplyOk (Matrix [sparseSeries, fullSeries])"
    by (simp add: twoSeriesWorld_def answerTwo_def)
  have v: "\<forall>m. Vector \<noteq> Matrix m" by simp
  have l: "(0::int) \<le> 2" by simp
  from result_shapes [OF c(1) q1, of nullValue utc] v
       result_shapes [OF c(2) q2, of nullValue utc] l
       result_shapes [OF c(3) q3, of nullValue utc]
  show ?thesis by blast
qed

section \<open>Properties of the colour scan\<close>








lemma showValues_lineColor:
  "LineColors0 (chart0 (showValues ds r0 l0 s)) = lineColor (Warn ds) (Error ds) r0"
  by (simp add: showValues_def Let_def)

lemmas example_colors =
  showValues_lineColor cpuSource_def lineColor_def colorStep_def nullValue_def
  strongestObserved_def

text \<open>
  Claim C2, counterexample. For the series 5, missing, 50 and the thresholds 10 and 40
  the line colour that \<open>syncProm\<close> leaves on the chart is not magenta.
\<close>

theorem missing_then_error_not_magenta:
  "LineColors0 (chart0 (showValues cpuSource [Fin 5, nullValue, Fin 50]
       [''00:14'', ''00:15'', ''00:16''] mainStart)) \<noteq> ColorMagenta"
  by (simp add: example_colors)

text \<open>
  Claim C2, as amended. For the series 5, missing, 50 and the thresholds 10 and 40 the
  scan ends on red, the colour of an error: the point 50 is scanned after the missing
  point, when the colour is no longer green, and red replaces magenta. The chart that
  \<open>syncProm\<close> renders carries that colour.
\<close>

theorem missing_then_error_is_red:
  "lineColor (Fin 10) (Fin 40) [Fin 5, nullValue, Fin 50] = ColorRed
   \<and> LineColors0 (chart0 (showValues cpuSource [Fin 5, nullValue, Fin 50]
         [''00:14'', ''00:15'', ''00:16''] mainStart)) = ColorRed"
  by (simp add: example_colors)





text \<open>
  Beside the claims: a point above both thresholds that is scanned while the colour is
  still green takes the first branch of the scan and is recorded as warn, whereas
  \<open>fontColor\<close>, which tests the error threshold first, is red for the same last point.
\<close>

lemma first_error_point_recorded_as_warn:
  "lineColor (Fin 10) (Fin 40) [Fin 5, Fin 50] = ColorYellow
   \<and> fontColorOf (Fin 10) (Fin 40) [Fin 5, Fin 50] = ''red''"
  by (simp add: lineColor_def colorStep_def nullValue_def fontColorOf_def)

section \<open>Properties of the layout and of the sync task\<close>

text \<open>
  \<open>resizeUi\<close> leaves the counter alone and sets the layout by its first matching case.
\<close>

lemma resizeUi_counter [simp]:
  "syncPromCount (resizeUi w s) = syncPromCount s" "polled (resizeUi w s) = polled s"
  "refreshUi (resizeUi w s) = refreshUi s"
  "width (resizeUi w s) = fst (TerminalDimensions w)"
  "height (resizeUi w s) = snd (TerminalDimensions w)"
  by (simp_all add: resizeUi_def Let_def)









lemma showValues_fields [simp]:
  "syncPromCount (showValues ds r0 l0 s) = syncPromCount s"
  "polled (showValues ds r0 l0 s) = polled s"
  "fontClock (showValues ds r0 l0 s) = fontClock s"
  "refreshUi (showValues ds r0 l0 s) = refreshUi s"
  by (simp_all add: showValues_def Let_def)

lemma showError_fields [simp]:
  "syncPromCount (showError ds s) = syncPromCount s"
  "polled (showError ds s) = polled s"
  "fontClock (showError ds s) = fontClock s"
  "refreshUi (showError ds s) = refreshUi s"
  by (simp_all add: showError_def Let_def)

lemma syncClock_fields [simp]:
  "syncPromCount (syncClock s) = syncPromCount s"
  "polled (syncClock s) = polled s"
  "fontClock (syncClock s) = fontClock s"
  "refreshUi (syncClock s) = refreshUi s"
  "width (syncClock s) = width s"
  "fontLabel (syncClock s) = fontLabel s"
  by (simp_all add: syncClock_def Let_def)



section \<open>Properties of the event loop\<close>








declare mainStep.simps(1) [simp del]












text \<open>The equations that evaluate a run on the inputs of the examples.\<close>

lemmas run_defs =
  mainStep.simps syncTerminal_def syncProm_def syncClock_def resizeUi_def showError_def showValues_def
  prometheusQueryRange_def datasourceCount_def quickJumps_def Atoi_def digitVal_def
  wrap64_def smod_int_alt_def markRefresh_def Let_def SetRect_def SetPlotRect_def
  polledOf_def screenOf_def

lemmas run_inputs =
  mainStart_def NewParagraph_def NewPlot_def threeSources_def oneSource_def cpuSource_def memSource_def netSource_def
  downWorld_def anyAddress_def answerDown_def answerFull_def fullSeries_def utc_def twoDigits_def

section \<open>The cursor and the index of the datasource\<close>






section \<open>A failed range query\<close>

lemma query_failed:
  "NewClient_ok w promFlag \<Longrightarrow>
   QueryRange w promFlag query (timeNow w - (len * step) * Second, timeNow w, step * Second)
     = ReplyErr \<Longrightarrow>
   prometheusQueryRange w promFlag query len step nv tz = Inr ([], [])"
  by (simp add: prometheusQueryRange_def)

text \<open>
  Claim C6, as amended. When the client is built and the call of the range query fails,
  \<open>prometheusQueryRange\<close> returns no value and no label, and the process goes on:
  \<open>syncProm\<close> returns a state, with the counter advanced by one, and a loop whose sync
  task reached \<open>syncProm\<close> there continues with the remaining events. Without a label font
  the chart is rendered with the title made of the source's title, \<open>PROM ERROR\<close> and the
  source's endpoint. With a label font (the layout of 240 by 30) the metric paragraph
  is rendered with the figures of the title and of \<open>PROM ERROR\<close>, without the endpoint,
  and the chart is rendered again as it was.
\<close>

theorem range_query_failure:
  fixes cfg :: config and w :: world and s :: state
  defines "i \<equiv> syncPromCount s smod datasourceCount cfg"
  defines "ds \<equiv> dsConfig cfg ! nat i"
  assumes idx: "0 \<le> i" "i < datasourceCount cfg"
    and client: "NewClient_ok w (Prom ds)"
    and down: "QueryRange w (Prom ds) (Query ds)
                 (timeNow w - ((width s - 8) * 60) * Second, timeNow w, 60 * Second) = ReplyErr"
  shows "prometheusQueryRange w (Prom ds) (Query ds) (width s - 8) 60 nullValue (timezone cfg)
           = Inr ([], [])
     \<and> (\<exists>s'. syncProm cfg w s = Inr s'
           \<and> (\<forall>s0 rest. syncTerminal cfg w s0 = syncProm cfg w s \<longrightarrow>
                  mainLoop cfg ((w, CronSync) # rest) s0 = mainLoop cfg rest s')
           \<and> syncPromCount s' = wrap64 (syncPromCount s + 1)
           \<and> (fontLabel s = [] \<longrightarrow>
                 chart0 s' = (chart0 s)\<lparr>PlotTitle := ChartErrorTitle (Title ds) (Prom ds)\<rparr>
                 \<and> pMetric s' = pMetric s
                 \<and> screen s' = screen s @ [Render_chart0 (chart0 s')])
           \<and> (fontLabel s \<noteq> [] \<longrightarrow>
                 pMetric s' = (pMetric s)\<lparr>Text := MetricErrorText (fontLabel s) (Title ds)\<rparr>
                 \<and> chart0 s' = chart0 s
                 \<and> screen s' = screen s @ [Render_pMetric (pMetric s'), Render_chart0 (chart0 s)]))"
proof -
  have q: "prometheusQueryRange w (Prom ds) (Query ds) (width s - 8) 60 nullValue (timezone cfg)
           = Inr ([], [])"
    using client down by (rule query_failed)
  have N: "datasourceCount cfg \<noteq> 0" using idx by simp
  have run: "syncProm cfg w s =
      Inr ((showError ds s)\<lparr>syncPromCount := wrap64 (syncPromCount (showError ds s) + 1),
             polled := polled (showError ds s) @ [i]\<rparr>)"
    using idx N q unfolding i_def ds_def by (simp add: syncProm_def Let_def)
  show ?thesis
    unfolding run using q by (simp add: showError_def Let_def)
qed

text \<open>
  Claim C6, counterexample. On a terminal of 240 by 30, with one datasource whose
  backend is down, the first sync shows the title of the source and nowhere its
  endpoint.
\<close>

theorem error_panel_without_endpoint:
  "shownOn (Title cpuSource) (screenOf (syncTerminal oneSource (downWorld (240, 30)) mainStart))
   \<and> \<not> shownOn (Prom cpuSource)
         (screenOf (syncTerminal oneSource (downWorld (240, 30)) mainStart))"
  by (simp add: run_defs run_inputs shownOn_def)

text \<open>
  The theorem on a terminal of 80 by 24 (no label font) and on one of 240 by 30 (label
  font \<open>standard\<close>), with one datasource whose backend is down.
\<close>

theorem range_query_failure_witness:
  "NewClient_ok (downWorld (80, 24)) (Prom cpuSource)
   \<and> QueryRange (downWorld (80, 24)) (Prom cpuSource) (Query cpuSource)
        (timeNow (downWorld (80, 24)) - ((width smallScreen - 8) * 60) * Second,
         timeNow (downWorld (80, 24)), 60 * Second) = ReplyErr
   \<and> prometheusQueryRange (downWorld (80, 24)) (Prom cpuSource) (Query cpuSource)
        (width smallScreen - 8) 60 nullValue utc = Inr ([], [])
   \<and> PlotTitle (chart0 (stateOf (syncProm oneSource (downWorld (80, 24)) smallScreen)))
        = ChartErrorTitle ''cpu'' ''http://prom:9090''
   \<and> Text (pMetric (stateOf (syncProm oneSource (downWorld (240, 30)) panelScreen)))
        = MetricErrorText ''standard'' ''cpu''
   \<and> PlotTitle (chart0 (stateOf (syncProm oneSource (downWorld (240, 30)) panelScreen)))
        = NoText
   \<and> syncPromCount (stateOf (syncProm oneSource (downWorld (240, 30)) panelScreen)) = 1"
proof -
  let ?small = "downWorld (80, 24)" and ?panel = "downWorld (240, 30)"
  have ds: "dsConfig oneSource ! nat (syncPromCount smallScreen smod datasourceCount oneSource)
              = cpuSource"
       "dsConfig oneSource ! nat (syncPromCount panelScreen smod datasourceCount oneSource)
              = cpuSource"
    by (simp_all add: smallScreen_def panelScreen_def run_defs run_inputs)
  have idx: "0 \<le> syncPromCount smallScreen smod datasourceCount oneSource"
       "syncPromCount smallScreen smod datasourceCount oneSource < datasourceCount oneSource"
       "0 \<le> syncPromCount panelScreen smod datasourceCount oneSource"
       "syncPromCount panelScreen smod datasourceCount oneSource < datasourceCount oneSource"
    by (simp_all add: smallScreen_def panelScreen_def run_defs run_inputs)
  have client: "NewClient_ok ?small (Prom cpuSource)" "NewClient_ok ?panel (Prom cpuSource)"
    by (simp_all add: downWorld_def anyAddress_def)
  have down: "QueryRange ?small (Prom cpuSource) (Query cpuSource)
        (timeNow ?small - ((width smallScreen - 8) * 60) * Second, timeNow ?small, 60 * Second)
        = ReplyErr"
      "QueryRange ?panel (Prom cpuSource) (Query cpuSource)
        (timeNow ?panel - ((width panelScreen - 8) * 60) * Second, timeNow ?panel, 60 * Second)
        = ReplyErr"
    by (simp_all add: downWorld_def answerDown_def)
  have fonts: "fontLabel smallScreen = []" "fontLabel panelScreen = ''standard''"
       "syncPromCount panelScreen = 0" "pMetric panelScreen = \<lparr>Rect = (0, 4, 100, 17), Text = NoText\<rparr>"
       "chart0 smallScreen = NewPlot\<lparr>PlotRect := (0, 11, 81, 25)\<rparr>"
       "PlotTitle (chart0 panelScreen) = NoText"
    by (simp_all add: smallScreen_def panelScreen_def run_defs run_inputs)
  have tz: "timezone oneSource = utc" by (simp add: oneSource_def)
  note small = range_query_failure [of smallScreen oneSource ?small, unfolded ds tz,
      OF idx(1,2) client(1) down(1)]
  note panel = range_query_failure [of panelScreen oneSource ?panel, unfolded ds tz,
      OF idx(3,4) client(2) down(2)]
  from small have q: "prometheusQueryRange ?small (Prom cpuSource) (Query cpuSource)
        (width smallScreen - 8) 60 nullValue utc = Inr ([], [])"
    by (rule conjunct1)
  from small obtain s1 where s1: "syncProm oneSource ?small smallScreen = Inr s1"
      "chart0 s1 = (chart0 smallScreen)\<lparr>PlotTitle := ChartErrorTitle (Title cpuSource) (Prom cpuSource)\<rparr>"
    using fonts(1) by auto
  from panel obtain s2 where s2: "syncProm oneSource ?panel panelScreen = Inr s2"
      "pMetric s2 = (pMetric panelScreen)\<lparr>Text := MetricErrorText (fontLabel panelScreen) (Title cpuSource)\<rparr>"
      "chart0 s2 = chart0 panelScreen"
      "syncPromCount s2 = wrap64 (syncPromCount panelScreen + 1)"
    using fonts(2) by auto
  have t1: "PlotTitle (chart0 (stateOf (syncProm oneSource ?small smallScreen)))
        = ChartErrorTitle ''cpu'' ''http://prom:9090''"
    by (simp add: s1 stateOf_def cpuSource_def)
  have t2: "Text (pMetric (stateOf (syncProm oneSource ?panel panelScreen)))
        = MetricErrorText ''standard'' ''cpu''"
    by (simp add: s2 stateOf_def cpuSource_def fonts)
  have t3: "PlotTitle (chart0 (stateOf (syncProm oneSource ?panel panelScreen))) = NoText"
    by (simp add: s2 stateOf_def fonts)
  have t4: "syncPromCount (stateOf (syncProm oneSource ?panel panelScreen)) = 1"
    by (simp add: s2 stateOf_def fonts wrap64_def)
  show ?thesis
    by (rule conjI [OF client(1) conjI [OF down(1) conjI [OF q conjI [OF t1 conjI [OF t2
          conjI [OF t3 t4]]]]]])
qed

section \<open>The unsupported size and the breakpoints\<close>









end
